theory Spec2Isabelle
  imports Complex_Main "HOL-Library.Sublist" "HOL-Library.Word"
begin

section \<open>The API client (api.ts)\<close>

subsection \<open>Values of the host language\<close>

text \<open>
  A string of the host language is a sequence of 16-bit code units (UTF-16). The literals
  of the source are ASCII; \<open>lit\<close> gives the code units of one. Numbers that count things
  (ids, pages, totals, HTTP statuses, milliseconds) are integers or naturals; the analysis
  confidence is a fraction and is a real.
\<close>

type_synonym code_unit = "16 word"

type_synonym jstring = "code_unit list"

definition lit :: "string \<Rightarrow> jstring" where
  "lit s = map (\<lambda>c. of_nat (of_char c)) s"

text \<open>An optional, nullable property (\<^verbatim>\<open>x?: T | null\<close>): missing, null, or a value.\<close>

datatype 'a js_opt = Undefined | Null | Val 'a

text \<open>
  A thrown value. \<open>is_Error\<close> is the result of \<^verbatim>\<open>error instanceof Error\<close>,
  \<open>err_name\<close> and \<open>err_message\<close> are its \<^verbatim>\<open>name\<close> and \<^verbatim>\<open>message\<close>.
\<close>

record js_error =
  is_Error :: bool
  err_name :: jstring
  err_message :: jstring

text \<open>\<^verbatim>\<open>new Error(msg)\<close>\<close>

definition new_Error :: "jstring \<Rightarrow> js_error" where
  "new_Error msg = \<lparr>is_Error = True, err_name = lit ''Error'', err_message = msg\<rparr>"

text \<open>
  The value \<^verbatim>\<open>fetch\<close> rejects with when its signal is aborted: a DOMException named
  AbortError, which is an instance of Error.
\<close>

definition abort_error :: js_error where
  "abort_error =
     \<lparr>is_Error = True, err_name = lit ''AbortError'', err_message = lit ''The operation was aborted.''\<rparr>"

text \<open>
  Decimal rendering of integers, as \<^verbatim>\<open>toString()\<close> and template literals give it (for
  integers below \<open>10 ^ 21\<close> in absolute value, which the host language prints in full).
\<close>

definition digit_char :: "nat \<Rightarrow> code_unit" where
  "digit_char d = lit ''0123456789'' ! d"

fun show_nat :: "nat \<Rightarrow> jstring" where
  "show_nat n = (if n < 10 then [digit_char n] else show_nat (n div 10) @ [digit_char (n mod 10)])"

declare show_nat.simps [simp del]

definition show_int :: "int \<Rightarrow> jstring" where
  "show_int i = (if i < 0 then lit ''-'' @ show_nat (nat (- i)) else show_nat (nat i))"

subsection \<open>Requests, responses and the network\<close>

datatype http_method = GET | POST

datatype json = JString jstring | JNumber int

text \<open>
  The \<^verbatim>\<open>RequestInit\<close> passed to \<^verbatim>\<open>fetch\<close>. The empty object \<^verbatim>\<open>{}\<close> is a GET with no
  headers and no body. A body is the object given to \<^verbatim>\<open>JSON.stringify\<close>, as its list of
  properties.
\<close>

record RequestInit =
  req_method :: http_method
  headers :: "(jstring \<times> jstring) list"
  body :: "(jstring \<times> json) list option"

definition empty_init :: RequestInit where
  "empty_init = \<lparr>req_method = GET, headers = [], body = None\<rparr>"

text \<open>
  One invocation of \<^verbatim>\<open>fetch\<close> under \<^verbatim>\<open>fetchWithTimeout\<close>: the URL up to the query
  string, the \<^verbatim>\<open>URLSearchParams\<close> entries in insertion order (their percent-encoding is
  not modelled), the init object, and the delay in milliseconds of the timer that
  aborts the request.
\<close>

record fetch_call =
  url :: jstring
  params :: "(jstring \<times> jstring) list"
  init :: RequestInit
  timeout :: nat

text \<open>
  A response: \<open>json\<close> is what \<^verbatim>\<open>response.json()\<close> settles to, a rejection (malformed
  body) or the decoded value, typed as the client declares it.
\<close>

record 'a response =
  status :: nat
  statusText :: jstring
  json :: "js_error + 'a"

text \<open>\<^verbatim>\<open>response.ok\<close>: the status is in the range 200-299.\<close>

definition ok :: "'a response \<Rightarrow> bool" where
  "ok r = (200 \<le> status r \<and> status r \<le> 299)"

text \<open>
  What one \<^verbatim>\<open>fetch\<close> settles to. A timeout is the rejection with \<open>abort_error\<close>, caused by
  the timer; any other rejection is a network error. The network is a function from the
  call to its outcome.
\<close>

datatype 'a fetch_outcome = Resolved "'a response" | Rejected js_error

type_synonym 'a network = "fetch_call \<Rightarrow> 'a fetch_outcome"

definition API_BASE_URL :: jstring where
  "API_BASE_URL = lit ''http://localhost:8000''"

text \<open>
  \<^verbatim>\<open>fetchWithTimeout(url, options, timeout)\<close>. The result is paired with the list of
  \<^verbatim>\<open>fetch\<close> invocations made, in order.
\<close>

definition fetchWithTimeout ::
  "'a network \<Rightarrow> jstring \<Rightarrow> (jstring \<times> jstring) list \<Rightarrow> RequestInit \<Rightarrow> nat
     \<Rightarrow> (js_error + 'a response) \<times> fetch_call list" where
  "fetchWithTimeout net u ps options t =
     (let call = \<lparr>url = u, params = ps, init = options, timeout = t\<rparr> in
      (case net call of
         Resolved response \<Rightarrow> Inr response
       | Rejected err \<Rightarrow>
           if is_Error err \<and> err_name err = lit ''AbortError''
           then Inl (new_Error (lit ''Request timeout after '' @ show_nat t @ lit ''ms''))
           else Inl err,
       [call]))"

text \<open>
  The lines every method but \<^verbatim>\<open>healthCheck\<close> ends with:
  \<^verbatim>\<open>if (!response.ok) throw new Error(`<what>: ${response.status} ${response.statusText}`);
  return response.json();\<close>
  applied to the settled \<^verbatim>\<open>fetchWithTimeout\<close>, whose rejection propagates.
\<close>

definition json_or_throw ::
  "jstring \<Rightarrow> (js_error + 'a response) \<times> fetch_call list \<Rightarrow> (js_error + 'a) \<times> fetch_call list" where
  "json_or_throw what r =
     (case fst r of
        Inl err \<Rightarrow> Inl err
      | Inr response \<Rightarrow>
          if \<not> ok response
          then Inl (new_Error (what @ lit '': '' @ show_nat (status response) @ lit '' '' @ statusText response))
          else json response,
      snd r)"

subsection \<open>Response shapes\<close>

record NewsArticle =
  na_id :: int
  title :: jstring
  content :: jstring
  summary :: jstring
  article_url :: jstring
  source :: jstring
  source_url :: jstring
  author :: jstring
  published_at :: jstring
  created_at :: jstring
  updated_at :: jstring
  ai_summary :: "jstring js_opt"
  market_impact :: "jstring js_opt"
  confidence_score :: "real js_opt"
  is_processed :: "bool js_opt"

record NewsSource =
  source_name :: jstring
  source_home :: jstring
  base_url :: jstring

record SourcesResponse =
  sr_sources :: "jstring \<rightharpoonup> NewsSource"
  sr_total :: int

record NewsResponse =
  articles :: "NewsArticle list"
  total :: int
  resp_page :: int
  per_page :: int

record NewsAnalysis =
  an_id :: int
  an_article_id :: int
  key_insights :: jstring
  an_market_impact :: jstring
  industry_sectors :: jstring
  geographic_impact :: jstring
  agno_analysis_id :: jstring
  agno_confidence :: real
  an_created_at :: jstring

subsection \<open>The methods of \<^verbatim>\<open>api\<close>\<close>

text \<open>A string is truthy when it is not empty; \<^verbatim>\<open>undefined\<close> is falsy.\<close>

definition optional_param :: "jstring \<Rightarrow> jstring option \<Rightarrow> (jstring \<times> jstring) list" where
  "optional_param k v = (case v of None \<Rightarrow> [] | Some s \<Rightarrow> if s \<noteq> [] then [(k, s)] else [])"

definition api_getNews ::
  "'a network \<Rightarrow> jstring option \<Rightarrow> int \<Rightarrow> int \<Rightarrow> jstring option \<Rightarrow> (js_error + 'a) \<times> fetch_call list" where
  "api_getNews net query pg perPage src =
     json_or_throw (lit ''Failed to fetch news'')
       (fetchWithTimeout net (API_BASE_URL @ lit ''/api/news'')
          ([(lit ''page'', show_int pg), (lit ''per_page'', show_int perPage)]
             @ optional_param (lit ''query'') query @ optional_param (lit ''source'') src)
          empty_init 45000)"

definition api_getNewsBySource ::
  "'a network \<Rightarrow> jstring \<Rightarrow> int \<Rightarrow> int \<Rightarrow> (js_error + 'a) \<times> fetch_call list" where
  "api_getNewsBySource net sourceId pg perPage =
     json_or_throw (lit ''Failed to fetch news from source'')
       (fetchWithTimeout net (API_BASE_URL @ lit ''/api/news/sources/'' @ sourceId)
          [(lit ''page'', show_int pg), (lit ''per_page'', show_int perPage)]
          empty_init 45000)"

definition api_getSources :: "'a network \<Rightarrow> (js_error + 'a) \<times> fetch_call list" where
  "api_getSources net =
     json_or_throw (lit ''Failed to fetch sources'')
       (fetchWithTimeout net (API_BASE_URL @ lit ''/api/sources'') [] empty_init 15000)"

definition api_fetchNewsFromSources :: "'a network \<Rightarrow> int \<Rightarrow> (js_error + 'a) \<times> fetch_call list" where
  "api_fetchNewsFromSources net articlesPerSource =
     json_or_throw (lit ''Failed to fetch news from sources'')
       (fetchWithTimeout net (API_BASE_URL @ lit ''/api/fetch-news'') []
          \<lparr>req_method = POST, headers = [(lit ''Content-Type'', lit ''application/json'')],
           body = Some [(lit ''articles_per_source'', JNumber articlesPerSource)]\<rparr>
          120000)"

definition api_getHeadlines ::
  "'a network \<Rightarrow> jstring \<Rightarrow> jstring \<Rightarrow> int \<Rightarrow> (js_error + 'a) \<times> fetch_call list" where
  "api_getHeadlines net category country pageSize =
     json_or_throw (lit ''Failed to fetch headlines'')
       (fetchWithTimeout net (API_BASE_URL @ lit ''/api/headlines'')
          [(lit ''category'', category), (lit ''country'', country), (lit ''page_size'', show_int pageSize)]
          empty_init 45000)"

definition api_getTrendingTopics :: "'a network \<Rightarrow> int \<Rightarrow> (js_error + 'a) \<times> fetch_call list" where
  "api_getTrendingTopics net hoursBack =
     json_or_throw (lit ''Failed to fetch trending topics'')
       (fetchWithTimeout net (API_BASE_URL @ lit ''/api/trending'')
          [(lit ''hours_back'', show_int hoursBack)] empty_init 45000)"

definition api_getMarketInsights :: "'a network \<Rightarrow> (js_error + 'a) \<times> fetch_call list" where
  "api_getMarketInsights net =
     json_or_throw (lit ''Failed to fetch market insights'')
       (fetchWithTimeout net (API_BASE_URL @ lit ''/api/insights'') [] empty_init 45000)"

definition api_analyzeArticle ::
  "'a network \<Rightarrow> jstring \<Rightarrow> jstring \<Rightarrow> (js_error + 'a) \<times> fetch_call list" where
  "api_analyzeArticle net articleText ttl =
     json_or_throw (lit ''Failed to analyze article'')
       (fetchWithTimeout net (API_BASE_URL @ lit ''/api/analyze'') []
          \<lparr>req_method = POST, headers = [(lit ''Content-Type'', lit ''application/json'')],
           body = Some [(lit ''article_text'', JString articleText), (lit ''title'', JString ttl)]\<rparr>
          60000)"

definition api_getSentimentAnalysis :: "'a network \<Rightarrow> jstring \<Rightarrow> (js_error + 'a) \<times> fetch_call list" where
  "api_getSentimentAnalysis net txt =
     json_or_throw (lit ''Failed to analyze sentiment'')
       (fetchWithTimeout net (API_BASE_URL @ lit ''/api/sentiment'') [(lit ''text'', txt)] empty_init 45000)"

text \<open>
  \<^verbatim>\<open>healthCheck\<close>: the whole body is inside \<^verbatim>\<open>try\<close>, and the \<^verbatim>\<open>catch\<close> returns false.
\<close>

definition api_healthCheck :: "'a network \<Rightarrow> (js_error + bool) \<times> fetch_call list" where
  "api_healthCheck net =
     (let r = fetchWithTimeout net (API_BASE_URL @ lit ''/health'') [] empty_init 20000 in
      (case fst r of Inr response \<Rightarrow> Inr (ok response) | Inl err \<Rightarrow> Inr False, snd r))"

section \<open>The dashboard (page.tsx)\<close>

subsection \<open>View state\<close>

text \<open>
  An article as the view holds it: the fetched article and the three properties the
  enrichment adds with \<^verbatim>\<open>{...article, aiSummary, marketImpact, confidence}\<close>, which are
  missing (\<open>Undefined\<close>) on an article stored as fetched.
\<close>

record ViewArticle = NewsArticle +
  aiSummary :: "jstring js_opt"
  marketImpact :: "jstring js_opt"
  confidence :: "real js_opt"

text \<open>The object spread: every property of the article, then the three added ones.\<close>

definition spread ::
  "NewsArticle \<Rightarrow> jstring js_opt \<Rightarrow> jstring js_opt \<Rightarrow> real js_opt \<Rightarrow> ViewArticle" where
  "spread article s m c =
     NewsArticle.extend article (ViewArticle.fields s m c)"

text \<open>An article stored as fetched.\<close>

definition as_fetched :: "NewsArticle \<Rightarrow> ViewArticle" where
  "as_fetched article = spread article Undefined Undefined Undefined"

text \<open>The \<^verbatim>\<open>useState\<close> cells of \<^verbatim>\<open>Home\<close>, with their initial values.\<close>

record state =
  searchQuery :: jstring
  newsArticles :: "ViewArticle list"
  sources :: "jstring \<rightharpoonup> NewsSource"
  selectedSource :: jstring
  loading :: bool
  fetchingNews :: bool
  error :: "jstring option"
  currentPage :: int
  totalPages :: int
  totalArticles :: int

definition initial_state :: state where
  "initial_state =
     \<lparr>searchQuery = [], newsArticles = [], sources = Map.empty, selectedSource = lit ''all'',
      loading = True, fetchingNews = False, error = None,
      currentPage = 1, totalPages = 1, totalArticles = 0\<rparr>"

definition articlesPerPage :: int where
  "articlesPerPage = 10"

text \<open>
  \<^verbatim>\<open>Math.ceil(newsData.total / articlesPerPage)\<close>. The quotient is taken exactly here; the
  source divides doubles, which gives the same page count for every total that is a safe
  integer (below \<open>2 ^ 53\<close> in absolute value).
\<close>

definition pages_for :: "int \<Rightarrow> int" where
  "pages_for n = \<lceil>real_of_int n / real_of_int articlesPerPage\<rceil>"

text \<open>
  The backend, as the dashboard meets it: one network per response shape. The analysis
  network takes the position of the article in its page as well, since two requests with
  the same text need not settle alike.
\<close>

record backend =
  health_net :: "unit network"
  sources_net :: "SourcesResponse network"
  news_net :: "NewsResponse network"
  analyze_net :: "nat \<Rightarrow> NewsAnalysis network"

text \<open>
  The code units \<^verbatim>\<open>String.prototype.trim\<close> strips from both ends, which are the WhiteSpace
  and LineTerminator code points of ECMAScript, 25 in all: tab, line feed, vertical tab,
  form feed, carriage return, space, no-break space, U+1680, U+2000 to U+200A, U+2028,
  U+2029, U+202F, U+205F, U+3000 and U+FEFF. Each is a single code unit.
\<close>

definition is_white :: "code_unit \<Rightarrow> bool" where
  "is_white c =
     (c \<in> {0x0009, 0x000A, 0x000B, 0x000C, 0x000D, 0x0020, 0x00A0, 0x1680,
            0x2028, 0x2029, 0x202F, 0x205F, 0x3000, 0xFEFF}
      \<or> (0x2000 \<le> c \<and> c \<le> 0x200A))"

definition trim :: "jstring \<Rightarrow> jstring" where
  "trim s = rev (dropWhile is_white (rev (dropWhile is_white s)))"

subsection \<open>Handlers\<close>

text \<open>
  A handler takes the backend and the state its closure sees, and returns the state after
  all its setters have run together with the \<^verbatim>\<open>fetch\<close> invocations it made, in order.
\<close>

definition fetchInitialData :: "backend \<Rightarrow> state \<Rightarrow> state \<times> fetch_call list" where
  "fetchInitialData be st =
     (let st1 = st\<lparr>loading := True, error := None\<rparr>;
          h = api_healthCheck (health_net be)
      in case fst h of
           Inl err \<Rightarrow>
             (st1\<lparr>error := Some (lit ''Failed to load data. Please try again.''), loading := False\<rparr>, snd h)
         | Inr isBackendHealthy \<Rightarrow>
             if \<not> isBackendHealthy
             then (st1\<lparr>error := Some (lit ''Backend server is not responding. Please ensure the backend is running on http://localhost:8000''),
                        loading := False\<rparr>, snd h)
             else
               (let s = api_getSources (sources_net be) in
                ((case fst s of
                    Inr sourcesData \<Rightarrow> st1\<lparr>sources := sr_sources sourcesData\<rparr>
                  | Inl err \<Rightarrow> st1\<lparr>sources := Map.empty\<rparr>)\<lparr>loading := False\<rparr>,
                 snd h @ snd s)))"

text \<open>
  The callback mapped over the page in \<^verbatim>\<open>fetchNews\<close>: its whole body is a \<^verbatim>\<open>try\<close> whose
  \<^verbatim>\<open>catch\<close> returns, so the promise it makes settles to \<open>Inr\<close> (fulfilled) in both branches.
\<close>

definition enrich :: "NewsAnalysis network \<Rightarrow> NewsArticle \<Rightarrow> (js_error + ViewArticle) \<times> fetch_call list" where
  "enrich net article =
     (let a = api_analyzeArticle net (content article) (title article) in
      (case fst a of
         Inr analysis \<Rightarrow>
           Inr (spread article (Val (key_insights analysis)) (Val (an_market_impact analysis))
                  (Val (agno_confidence analysis)))
       | Inl err \<Rightarrow> Inr (spread article Null Null Null),
       snd a))"

text \<open>\<^verbatim>\<open>Promise.allSettled\<close>: one result per promise, in order; it never rejects.\<close>

datatype 'a settled = Fulfilled 'a | RejectedWith js_error

definition allSettled :: "(js_error + 'a) list \<Rightarrow> 'a settled list" where
  "allSettled ps = map (\<lambda>p. case p of Inr v \<Rightarrow> Fulfilled v | Inl e \<Rightarrow> RejectedWith e) ps"

text \<open>
  \<^verbatim>\<open>articlesWithAI.map(r => r.status === 'fulfilled' ? r.value : r.reason)
    .filter(article => article && typeof article === 'object')\<close>:
  a fulfilled value is an article object and is kept. A rejection reason is not an
  article and has no place in the article list of this model, where it is left out; the
  case does not arise, since the promises of \<open>enrich\<close> always fulfil.
\<close>

definition processed :: "ViewArticle settled list \<Rightarrow> ViewArticle list" where
  "processed rs = List.map_filter (\<lambda>r. case r of Fulfilled v \<Rightarrow> Some v | RejectedWith e \<Rightarrow> None) rs"

definition fetchNews :: "backend \<Rightarrow> jstring option \<Rightarrow> int \<Rightarrow> state \<Rightarrow> state \<times> fetch_call list" where
  "fetchNews be query pg st =
     (let st1 = st\<lparr>loading := True\<rparr>;
          n = api_getNews (news_net be) query pg articlesPerPage None
      in case fst n of
           Inl err \<Rightarrow>
             (st1\<lparr>error := Some (lit ''Failed to fetch news. Please try again.''), loading := False\<rparr>, snd n)
         | Inr newsData \<Rightarrow>
             (let st2 = st1\<lparr>newsArticles := map as_fetched (articles newsData),
                            totalArticles := total newsData,
                            totalPages := pages_for (total newsData),
                            currentPage := pg,
                            loading := False\<rparr>
              in if length (articles newsData) > 0
                 then
                   (let promises = map (\<lambda>(i, article). enrich (analyze_net be i) article)
                                     (enumerate 0 (articles newsData));
                        articlesWithAI = allSettled (map fst promises);
                        processedArticles = processed articlesWithAI
                    in (st2\<lparr>newsArticles := processedArticles\<rparr>, snd n @ concat (map snd promises)))
                 else (st2, snd n)))"

definition fetchNewsBySource :: "backend \<Rightarrow> jstring \<Rightarrow> int \<Rightarrow> state \<Rightarrow> state \<times> fetch_call list" where
  "fetchNewsBySource be sourceId pg st =
     (let st1 = st\<lparr>loading := True, error := None\<rparr>;
          n = (if sourceId = lit ''all''
               then api_getNews (news_net be) None pg articlesPerPage None
               else api_getNewsBySource (news_net be) sourceId pg articlesPerPage)
      in (case fst n of
            Inr newsData \<Rightarrow>
              st1\<lparr>newsArticles := map as_fetched (articles newsData),
                  totalArticles := total newsData,
                  totalPages := pages_for (total newsData),
                  currentPage := pg,
                  loading := False\<rparr>
          | Inl err \<Rightarrow>
              st1\<lparr>error := Some (lit ''Failed to fetch news. Please try again.''), loading := False\<rparr>,
          snd n))"

definition handleSourceChange :: "backend \<Rightarrow> jstring \<Rightarrow> state \<Rightarrow> state \<times> fetch_call list" where
  "handleSourceChange be sourceId st =
     fetchNewsBySource be sourceId 1 (st\<lparr>selectedSource := sourceId, currentPage := 1\<rparr>)"

definition handleSearch :: "backend \<Rightarrow> state \<Rightarrow> state \<times> fetch_call list" where
  "handleSearch be st =
     (if trim (searchQuery st) \<noteq> []
      then
        (let st1 = st\<lparr>loading := True, currentPage := 1\<rparr>;
             n = api_getNews (news_net be) (Some (searchQuery st)) 1 articlesPerPage
                   (if selectedSource st = lit ''all'' then None else Some (selectedSource st))
         in (case fst n of
               Inr newsData \<Rightarrow>
                 st1\<lparr>newsArticles := map as_fetched (articles newsData),
                     totalArticles := total newsData,
                     totalPages := pages_for (total newsData),
                     loading := False\<rparr>
             | Inl err \<Rightarrow>
                 st1\<lparr>error := Some (lit ''Failed to search news. Please try again.''), loading := False\<rparr>,
             snd n))
      else fetchNewsBySource be (selectedSource st) 1 (st\<lparr>currentPage := 1\<rparr>))"

definition handlePageChange :: "backend \<Rightarrow> int \<Rightarrow> state \<Rightarrow> state \<times> fetch_call list" where
  "handlePageChange be pg st =
     (if pg \<ge> 1 \<and> pg \<le> totalPages st
      then
        (let st1 = st\<lparr>currentPage := pg\<rparr> in
         if trim (searchQuery st) \<noteq> []
         then
           (let st2 = st1\<lparr>loading := True\<rparr>;
                n = api_getNews (news_net be) (Some (searchQuery st)) pg articlesPerPage
                      (if selectedSource st = lit ''all'' then None else Some (selectedSource st))
            in (case fst n of
                  Inr newsData \<Rightarrow>
                    st2\<lparr>newsArticles := map as_fetched (articles newsData), loading := False\<rparr>
                | Inl err \<Rightarrow>
                    st2\<lparr>error := Some (lit ''Failed to fetch news. Please try again.''), loading := False\<rparr>,
                snd n))
         else fetchNewsBySource be (selectedSource st) pg st1)
      else (st, []))"

subsection \<open>The page-number buttons\<close>

text \<open>
  \<^verbatim>\<open>{totalPages > 1 && ( ... Array.from({ length: Math.min(5, totalPages) }, (_, i) => ...) ... )}\<close>:
  \<open>pageNum\<close> is the number on button \<open>i\<close>, and \<open>pageButtons\<close> the numbers of the buttons
  rendered, none when there is at most one page.
\<close>

definition pageNum :: "int \<Rightarrow> int \<Rightarrow> int \<Rightarrow> int" where
  "pageNum tp cp i =
     (if tp \<le> 5 then i + 1
      else if cp \<le> 3 then i + 1
      else if cp \<ge> tp - 2 then tp - 4 + i
      else cp - 2 + i)"

definition pageButtons :: "int \<Rightarrow> int \<Rightarrow> int list" where
  "pageButtons tp cp =
     (if tp > 1 then map (\<lambda>i. pageNum tp cp (int i)) [0 ..< nat (min 5 tp)] else [])"

section \<open>Vocabulary of the properties\<close>

subsection \<open>The requests the client makes\<close>

text \<open>The \<^verbatim>\<open>fetch\<close> invocation of \<^verbatim>\<open>healthCheck()\<close>.\<close>

definition health_request :: fetch_call where
  "health_request =
     \<lparr>url = lit ''http://localhost:8000/health'', params = [], init = empty_init, timeout = 20000\<rparr>"

text \<open>The \<^verbatim>\<open>fetch\<close> invocation of \<^verbatim>\<open>getSources()\<close>.\<close>

definition sources_request :: fetch_call where
  "sources_request =
     \<lparr>url = lit ''http://localhost:8000/api/sources'', params = [], init = empty_init, timeout = 15000\<rparr>"

text \<open>The \<^verbatim>\<open>fetch\<close> invocation of \<^verbatim>\<open>analyzeArticle(article.content, article.title)\<close>.\<close>

definition analyze_request :: "NewsArticle \<Rightarrow> fetch_call" where
  "analyze_request article =
     \<lparr>url = lit ''http://localhost:8000/api/analyze'', params = [],
      init = \<lparr>req_method = POST, headers = [(lit ''Content-Type'', lit ''application/json'')],
              body = Some [(lit ''article_text'', JString (content article)),
                           (lit ''title'', JString (title article))]\<rparr>,
      timeout = 60000\<rparr>"

text \<open>A page of all news, ten per page, with neither query nor source.\<close>

definition unscoped_page_request :: "int \<Rightarrow> fetch_call" where
  "unscoped_page_request pg =
     \<lparr>url = lit ''http://localhost:8000/api/news'',
      params = [(lit ''page'', show_int pg), (lit ''per_page'', lit ''10'')],
      init = empty_init, timeout = 45000\<rparr>"

text \<open>A page of the news of one source, ten per page.\<close>

definition source_page_request :: "jstring \<Rightarrow> int \<Rightarrow> fetch_call" where
  "source_page_request sourceId pg =
     \<lparr>url = lit ''http://localhost:8000/api/news/sources/'' @ sourceId,
      params = [(lit ''page'', show_int pg), (lit ''per_page'', lit ''10'')],
      init = empty_init, timeout = 45000\<rparr>"

text \<open>
  A page of search results for the query \<open>q\<close> under the selection \<open>sel\<close>: the source is
  passed on unless the selection is \<^verbatim>\<open>"all"\<close> (and \<^verbatim>\<open>getNews\<close> appends it when it is truthy).
\<close>

definition search_request :: "jstring \<Rightarrow> int \<Rightarrow> jstring \<Rightarrow> fetch_call" where
  "search_request q pg sel =
     \<lparr>url = lit ''http://localhost:8000/api/news'',
      params = [(lit ''page'', show_int pg), (lit ''per_page'', lit ''10''), (lit ''query'', q)]
                 @ optional_param (lit ''source'') (if sel = lit ''all'' then None else Some sel),
      init = empty_init, timeout = 45000\<rparr>"

subsection \<open>Failures and how they reach the caller\<close>

text \<open>
  The rejection of a \<^verbatim>\<open>fetch\<close> whose timer fired: an Error named AbortError, whatever its
  message.
\<close>

definition timed_out :: "js_error \<Rightarrow> bool" where
  "timed_out x = (is_Error x \<and> err_name x = lit ''AbortError'')"

text \<open>Exactly one \<^verbatim>\<open>fetch\<close>, under a timer of 15 to 120 seconds.\<close>

definition one_attempt :: "fetch_call list \<Rightarrow> bool" where
  "one_attempt cs = (case cs of [c] \<Rightarrow> 15000 \<le> timeout c \<and> timeout c \<le> 120000 | _ \<Rightarrow> False)"

text \<open>The call threw, and the message of the thrown error contains \<open>detail\<close>.\<close>

definition thrown_with :: "jstring \<Rightarrow> js_error + 'b \<Rightarrow> bool" where
  "thrown_with detail r = (case r of Inl e \<Rightarrow> sublist detail (err_message e) | Inr v \<Rightarrow> False)"

text \<open>
  Every request of the call that met a non-2xx response or a timeout made the call throw,
  with the status, respectively the timeout in milliseconds, in the message.
\<close>

definition failure_thrown :: "'a network \<Rightarrow> (js_error + 'b) \<times> fetch_call list \<Rightarrow> bool" where
  "failure_thrown net res =
     list_all (\<lambda>c. case net c of
                 Resolved r \<Rightarrow> ok r \<or> thrown_with (show_nat (status r)) (fst res)
               | Rejected x \<Rightarrow> \<not> timed_out x \<or> thrown_with (show_nat (timeout c) @ lit ''ms'') (fst res))
       (snd res)"

definition surfaced :: "'a network \<Rightarrow> (js_error + 'b) \<times> fetch_call list \<Rightarrow> bool" where
  "surfaced net res = (one_attempt (snd res) \<and> failure_thrown net res)"

subsection \<open>What a request brings back\<close>

text \<open>
  The decoded body of the response to a request, when the response arrived with a status
  from 200 to 299 and its body could be decoded; nothing when the request was rejected
  (timeout, network error), answered with another status, or answered with a malformed body.
\<close>

definition served :: "'a network \<Rightarrow> fetch_call \<Rightarrow> 'a option" where
  "served net c =
     (case net c of
        Resolved r \<Rightarrow>
          if 200 \<le> status r \<and> status r \<le> 299
          then (case json r of Inr v \<Rightarrow> Some v | Inl e \<Rightarrow> None)
          else None
      | Rejected x \<Rightarrow> None)"

text \<open>The integers a number of the host language holds exactly.\<close>

definition safe_integer :: "int \<Rightarrow> bool" where
  "safe_integer n = (- 9007199254740991 \<le> n \<and> n \<le> 9007199254740991)"

subsection \<open>Blank strings\<close>

text \<open>
  Whitespace as ECMAScript defines it for \<^verbatim>\<open>trim\<close>: the WhiteSpace code points (tab,
  vertical tab, form feed, the byte order mark and the Unicode space separators) and the
  LineTerminator code points. A string is blank when it holds nothing else; the empty
  string is blank.
\<close>

definition space_separator :: "code_unit set" where
  "space_separator = {0x0020, 0x00A0, 0x1680, 0x202F, 0x205F, 0x3000} \<union> {0x2000 .. 0x200A}"

definition white_space :: "code_unit set" where
  "white_space = {0x0009, 0x000B, 0x000C, 0xFEFF} \<union> space_separator"

definition line_terminator :: "code_unit set" where
  "line_terminator = {0x000A, 0x000D, 0x2028, 0x2029}"

definition blank :: "jstring \<Rightarrow> bool" where
  "blank q = (set q \<subseteq> white_space \<union> line_terminator)"

subsection \<open>Windows of page numbers\<close>

text \<open>The five pages around a page.\<close>

definition centred_on :: "int \<Rightarrow> int list" where
  "centred_on cp = [cp - 2, cp - 1, cp, cp + 1, cp + 2]"

subsection \<open>Sample networks\<close>

text \<open>A network that answers every request alike, and one that rejects every request alike.\<close>

definition answering :: "nat \<Rightarrow> jstring \<Rightarrow> js_error + 'a \<Rightarrow> 'a network" where
  "answering s txt j = (\<lambda>c. Resolved \<lparr>status = s, statusText = txt, json = j\<rparr>)"

definition rejecting :: "js_error \<Rightarrow> 'a network" where
  "rejecting x = (\<lambda>c. Rejected x)"

definition network_error :: js_error where
  "network_error = \<lparr>is_Error = True, err_name = lit ''TypeError'', err_message = lit ''Failed to fetch''\<rparr>"

subsection \<open>The enrichment of one article\<close>

text \<open>
  What the enrichment makes of an article, given the network its analysis request meets:
  the article with null added properties when \<^verbatim>\<open>analyzeArticle\<close> rejected, and with the
  insights, market impact and confidence of the analysis otherwise.
\<close>

definition enriched :: "NewsAnalysis network \<Rightarrow> NewsArticle \<Rightarrow> ViewArticle" where
  "enriched net article =
     (case fst (api_analyzeArticle net (content article) (title article)) of
        Inl e \<Rightarrow> spread article Null Null Null
      | Inr analysis \<Rightarrow>
          spread article (Val (key_insights analysis)) (Val (an_market_impact analysis))
            (Val (agno_confidence analysis)))"

subsection \<open>A sample backend\<close>

definition sample_article :: "int \<Rightarrow> jstring \<Rightarrow> NewsArticle" where
  "sample_article n t =
     \<lparr>na_id = n, title = t, content = lit ''Body of '' @ t, summary = lit ''Short'',
      article_url = lit ''https://news.example/'' @ t, source = lit ''tbs'',
      source_url = lit ''https://news.example'', author = lit ''Desk'',
      published_at = lit ''2025-01-01T00:00:00'', created_at = lit ''2025-01-01T00:05:00'',
      updated_at = lit ''2025-01-01T00:05:00'', ai_summary = Val (lit ''Stored summary''),
      market_impact = Null, confidence_score = Undefined, is_processed = Val True\<rparr>"

definition sample_analysis :: NewsAnalysis where
  "sample_analysis =
     \<lparr>an_id = 7, an_article_id = 2, key_insights = lit ''Orders are up'',
      an_market_impact = lit ''positive'', industry_sectors = lit ''knitwear'',
      geographic_impact = lit ''Bangladesh'', agno_analysis_id = lit ''a-7'',
      agno_confidence = 9 / 10, an_created_at = lit ''2025-01-01T00:06:00''\<rparr>"

definition sample_page :: NewsResponse where
  "sample_page =
     \<lparr>articles = [sample_article 1 (lit ''Cotton''), sample_article 2 (lit ''Exports'')],
      total = 47, resp_page = 1, per_page = 10\<rparr>"

text \<open>
  A healthy backend whose source list cannot be reached, which serves \<open>sample_page\<close>, and
  whose analysis fails with status 500 for the first article of a page and succeeds for
  the others.
\<close>

definition sample_backend :: backend where
  "sample_backend =
     \<lparr>health_net = answering 200 (lit ''OK'') (Inr ()),
      sources_net = rejecting network_error,
      news_net = answering 200 (lit ''OK'') (Inr sample_page),
      analyze_net = (\<lambda>i. if i = 0 then answering 500 (lit ''Internal Server Error'') (Inr sample_analysis)
                          else answering 200 (lit ''OK'') (Inr sample_analysis))\<rparr>"

text \<open>The same backend with its health endpoint answering 503.\<close>

definition down_backend :: backend where
  "down_backend = sample_backend\<lparr>health_net := answering 503 (lit ''Service Unavailable'') (Inr ())\<rparr>"

section \<open>Properties of literals\<close>

lemma unit_of_char_inj: "inj (\<lambda>c. of_nat (of_char c) :: code_unit)"
proof (rule injI)
  fix a b :: char
  assume "(of_nat (of_char a) :: code_unit) = of_nat (of_char b)"
  then have "unat (of_nat (of_char a) :: code_unit) = unat (of_nat (of_char b) :: code_unit)"
    by simp
  moreover have "(of_char c :: nat) < 2 ^ 16" for c
    by (rule less_trans [OF nat_of_char_less_256]) simp
  ultimately have "(of_char a :: nat) = of_char b"
    by (simp add: unat_of_nat)
  then show "a = b"
    by simp
qed

lemma lit_eq_iff [simp]: "lit a = lit b \<longleftrightarrow> a = b"
  unfolding lit_def by (rule inj_map_eq_map [OF unit_of_char_inj])

lemma lit_append [simp]: "lit a @ lit b = lit (a @ b)"
  by (simp add: lit_def)

lemma lit_append_more [simp]: "lit a @ lit b @ s = lit (a @ b) @ s"
  by (simp add: lit_def)

lemma lit_empty_iff [simp]: "lit a = [] \<longleftrightarrow> a = []"
  by (simp add: lit_def)

section \<open>Properties of the API client\<close>

lemma fetchWithTimeout_log:
  "snd (fetchWithTimeout net u ps i t) = [\<lparr>url = u, params = ps, init = i, timeout = t\<rparr>]"
  by (simp add: fetchWithTimeout_def Let_def)

lemma json_or_throw_log: "snd (json_or_throw w r) = snd r"
  by (simp add: json_or_throw_def)

lemma json_or_throw_served:
  "fst (json_or_throw w (fetchWithTimeout net u ps i t)) = Inr d
     \<longleftrightarrow> served net \<lparr>url = u, params = ps, init = i, timeout = t\<rparr> = Some d"
  by (simp add: json_or_throw_def fetchWithTimeout_def Let_def served_def ok_def new_Error_def
      split: fetch_outcome.splits sum.splits)

lemma timeout_message: "sublist (show_nat t @ lit ''ms'') (lit ''Request timeout after '' @ show_nat t @ lit ''ms'')"
  by (rule sublist_append_leftI)

lemma status_message: "sublist (show_nat s) (w @ lit '': '' @ show_nat s @ lit '' '' @ txt)"
proof -
  have "w @ lit '': '' @ show_nat s @ lit '' '' @ txt = (w @ lit '': '') @ show_nat s @ (lit '' '' @ txt)"
    by simp
  then show ?thesis
    using sublist_appendI by metis
qed

lemma json_or_throw_one_attempt:
  "15000 \<le> t \<Longrightarrow> t \<le> 120000 \<Longrightarrow> one_attempt (snd (json_or_throw w (fetchWithTimeout net u ps i t)))"
  by (simp add: json_or_throw_log fetchWithTimeout_log one_attempt_def)

lemma json_or_throw_failure_thrown:
  "failure_thrown net (json_or_throw w (fetchWithTimeout net u ps i t))"
proof (cases "net \<lparr>url = u, params = ps, init = i, timeout = t\<rparr>")
  case (Resolved r)
  then show ?thesis
    using status_message [of "status r" w "statusText r"]
    by (simp add: failure_thrown_def json_or_throw_def fetchWithTimeout_def Let_def
        thrown_with_def new_Error_def del: append_assoc)
next
  case (Rejected x)
  then show ?thesis
    using timeout_message [of t]
    by (simp add: failure_thrown_def json_or_throw_def fetchWithTimeout_def Let_def
        thrown_with_def new_Error_def timed_out_def)
qed

lemma json_or_throw_surfaced:
  "15000 \<le> t \<Longrightarrow> t \<le> 120000 \<Longrightarrow> surfaced net (json_or_throw w (fetchWithTimeout net u ps i t))"
  unfolding surfaced_def
  by (simp only: json_or_throw_one_attempt json_or_throw_failure_thrown)

lemma healthCheck_log: "snd (api_healthCheck net) = [health_request]"
  by (simp add: api_healthCheck_def Let_def fetchWithTimeout_log health_request_def API_BASE_URL_def)

text \<open>
  C3, as amended. Every method of the client makes exactly one \<^verbatim>\<open>fetch\<close>, under a timer of
  15 to 120 seconds that aborts it. For the nine methods other than \<^verbatim>\<open>healthCheck\<close>, a
  non-2xx response makes the call throw an error whose message contains the status, and a
  timeout makes it throw an error whose message contains the timeout in milliseconds.
  \<^verbatim>\<open>healthCheck\<close> never throws.
\<close>

theorem api_failures_thrown:
  "surfaced n1 (api_getNews n1 query pg perPage src)
   \<and> surfaced n2 (api_getNewsBySource n2 sourceId pg perPage)
   \<and> surfaced n3 (api_getSources n3)
   \<and> surfaced n4 (api_fetchNewsFromSources n4 articlesPerSource)
   \<and> surfaced n5 (api_getHeadlines n5 category country pageSize)
   \<and> surfaced n6 (api_getTrendingTopics n6 hoursBack)
   \<and> surfaced n7 (api_getMarketInsights n7)
   \<and> surfaced n8 (api_analyzeArticle n8 articleText ttl)
   \<and> surfaced n9 (api_getSentimentAnalysis n9 txt)
   \<and> one_attempt (snd (api_healthCheck n10))
   \<and> \<not> isl (fst (api_healthCheck n10))"
proof -
  have 1: "surfaced n1 (api_getNews n1 query pg perPage src)"
    unfolding api_getNews_def by (rule json_or_throw_surfaced) simp_all
  have 2: "surfaced n2 (api_getNewsBySource n2 sourceId pg perPage)"
    unfolding api_getNewsBySource_def by (rule json_or_throw_surfaced) simp_all
  have 3: "surfaced n3 (api_getSources n3)"
    unfolding api_getSources_def by (rule json_or_throw_surfaced) simp_all
  have 4: "surfaced n4 (api_fetchNewsFromSources n4 articlesPerSource)"
    unfolding api_fetchNewsFromSources_def by (rule json_or_throw_surfaced) simp_all
  have 5: "surfaced n5 (api_getHeadlines n5 category country pageSize)"
    unfolding api_getHeadlines_def by (rule json_or_throw_surfaced) simp_all
  have 6: "surfaced n6 (api_getTrendingTopics n6 hoursBack)"
    unfolding api_getTrendingTopics_def by (rule json_or_throw_surfaced) simp_all
  have 7: "surfaced n7 (api_getMarketInsights n7)"
    unfolding api_getMarketInsights_def by (rule json_or_throw_surfaced) simp_all
  have 8: "surfaced n8 (api_analyzeArticle n8 articleText ttl)"
    unfolding api_analyzeArticle_def by (rule json_or_throw_surfaced) simp_all
  have 9: "surfaced n9 (api_getSentimentAnalysis n9 txt)"
    unfolding api_getSentimentAnalysis_def by (rule json_or_throw_surfaced) simp_all
  have 10: "one_attempt (snd (api_healthCheck n10))"
    by (simp add: healthCheck_log one_attempt_def health_request_def)
  have 11: "\<not> isl (fst (api_healthCheck n10))"
    by (simp add: api_healthCheck_def Let_def split: sum.splits)
  from 1 2 3 4 5 6 7 8 9 10 11 show ?thesis
    by (intro conjI)
qed

text \<open>
  At a backend answering 503, \<^verbatim>\<open>getNews\<close> throws with 503 in the message; at a request that
  times out, \<^verbatim>\<open>getSources\<close> throws with its 15000 ms in the message.
\<close>

theorem api_failures_thrown_witness:
  "thrown_with (lit ''503'') (fst (api_getNews (answering 503 (lit ''Service Unavailable'') (Inr ())) None 1 10 None))
   \<and> thrown_with (lit ''15000ms'') (fst (api_getSources (rejecting abort_error :: unit network)))"
proof -
  let ?down = "answering 503 (lit ''Service Unavailable'') (Inr ()) :: unit network"
  let ?slow = "rejecting abort_error :: unit network"
  have s1: "show_nat 503 = lit ''503''"
    by (simp add: show_nat.simps digit_char_def lit_def)
  have s2: "show_nat 15000 = lit ''15000''"
    by (simp add: show_nat.simps digit_char_def lit_def)
  note all = api_failures_thrown [of ?down None 1 10 None ?down "lit ''bbc''" ?slow ?down 15
      ?down "lit ''business''" "lit ''us''" 10 ?down 24 ?down ?down "lit ''text''" "lit ''title''" ?down "lit ''text''" ?down]
  have "surfaced ?down (api_getNews ?down None 1 10 None)"
    using all by (rule conjunct1)
  moreover have "surfaced ?slow (api_getSources ?slow)"
    using all [THEN conjunct2, THEN conjunct2] by (rule conjunct1)
  ultimately show ?thesis
    by (simp add: surfaced_def failure_thrown_def api_getNews_def api_getSources_def
        json_or_throw_log fetchWithTimeout_log answering_def rejecting_def ok_def timed_out_def
        abort_error_def s1 s2)
qed

text \<open>
  C3 as stated fails at \<^verbatim>\<open>healthCheck\<close>: against a backend answering 503 it makes its one
  request, meets a non-2xx response, and throws nothing.
\<close>

theorem healthCheck_throws_counterexample:
  "\<not> surfaced (answering 503 (lit ''Service Unavailable'') (Inr ()))
       (api_healthCheck (answering 503 (lit ''Service Unavailable'') (Inr ())))"
  by (simp add: surfaced_def failure_thrown_def api_healthCheck_def fetchWithTimeout_def Let_def
      answering_def ok_def thrown_with_def)

text \<open>
  C8. \<^verbatim>\<open>healthCheck()\<close> makes its one request and resolves to a boolean whatever the request
  settles to: true exactly when a response arrived with a status from 200 to 299, false for
  any other response and for any rejection (timeout or network error). It never rejects,
  whereas each of the nine other methods rejects when its request is rejected.
\<close>

theorem healthCheck_total:
  "api_healthCheck net =
     (Inr (case net health_request of
             Resolved r \<Rightarrow> 200 \<le> status r \<and> status r \<le> 299
           | Rejected x \<Rightarrow> False),
      [health_request])
   \<and> isl (fst (api_getNews (rejecting x) query pg perPage src))
   \<and> isl (fst (api_getNewsBySource (rejecting x) sourceId pg perPage))
   \<and> isl (fst (api_getSources (rejecting x)))
   \<and> isl (fst (api_fetchNewsFromSources (rejecting x) articlesPerSource))
   \<and> isl (fst (api_getHeadlines (rejecting x) category country pageSize))
   \<and> isl (fst (api_getTrendingTopics (rejecting x) hoursBack))
   \<and> isl (fst (api_getMarketInsights (rejecting x)))
   \<and> isl (fst (api_analyzeArticle (rejecting x) articleText ttl))
   \<and> isl (fst (api_getSentimentAnalysis (rejecting x) txt))"
proof -
  have rej: "isl (fst (json_or_throw w (fetchWithTimeout (rejecting x) u ps i t)))" for w u ps i t
    by (simp add: json_or_throw_def fetchWithTimeout_def Let_def rejecting_def)
  have hc: "api_healthCheck net =
     (Inr (case net health_request of
             Resolved r \<Rightarrow> 200 \<le> status r \<and> status r \<le> 299
           | Rejected x \<Rightarrow> False),
      [health_request])"
    by (simp add: api_healthCheck_def fetchWithTimeout_def Let_def health_request_def
        API_BASE_URL_def ok_def split: fetch_outcome.splits)
  show ?thesis
    unfolding api_getNews_def api_getNewsBySource_def api_getSources_def
      api_fetchNewsFromSources_def api_getHeadlines_def api_getTrendingTopics_def
      api_getMarketInsights_def api_analyzeArticle_def api_getSentimentAnalysis_def
    by (intro conjI hc rej)
qed

text \<open>
  A 204 gives true; a 503, a timeout and a network error each give false, as a value.
\<close>

theorem healthCheck_total_witness:
  "api_healthCheck (answering 204 (lit ''No Content'') (Inr ())) = (Inr True, [health_request])
   \<and> api_healthCheck (answering 503 (lit ''Service Unavailable'') (Inr ())) = (Inr False, [health_request])
   \<and> api_healthCheck (rejecting abort_error :: unit network) = (Inr False, [health_request])
   \<and> api_healthCheck (rejecting network_error :: unit network) = (Inr False, [health_request])"
  using healthCheck_total [of "answering 204 (lit ''No Content'') (Inr ())", THEN conjunct1]
    healthCheck_total [of "answering 503 (lit ''Service Unavailable'') (Inr ())", THEN conjunct1]
    healthCheck_total [of "rejecting abort_error :: unit network", THEN conjunct1]
    healthCheck_total [of "rejecting network_error :: unit network", THEN conjunct1]
  by (simp add: answering_def rejecting_def)

section \<open>Properties of the dashboard\<close>

subsection \<open>The requests behind the handlers\<close>

lemma show_int_10: "show_int 10 = lit ''10''"
  by (simp add: show_int_def show_nat.simps digit_char_def lit_def)

lemma show_nat_500: "show_nat 500 = lit ''500''"
  by (simp add: show_nat.simps digit_char_def lit_def)

lemma show_int_1: "show_int 1 = lit ''1''"
  by (simp add: show_int_def show_nat.simps digit_char_def lit_def)

lemma getNews_unscoped_log:
  "snd (api_getNews net None pg articlesPerPage None) = [unscoped_page_request pg]"
  by (simp add: api_getNews_def json_or_throw_log fetchWithTimeout_log unscoped_page_request_def
      API_BASE_URL_def articlesPerPage_def optional_param_def show_int_10)

lemma getNewsBySource_log:
  "snd (api_getNewsBySource net sourceId pg articlesPerPage) = [source_page_request sourceId pg]"
  by (simp add: api_getNewsBySource_def json_or_throw_log fetchWithTimeout_log
      source_page_request_def API_BASE_URL_def articlesPerPage_def show_int_10)

lemma getNews_search_log:
  "q \<noteq> [] \<Longrightarrow>
   snd (api_getNews net (Some q) pg articlesPerPage (if sel = lit ''all'' then None else Some sel))
     = [search_request q pg sel]"
  by (simp add: api_getNews_def json_or_throw_log fetchWithTimeout_log search_request_def
      API_BASE_URL_def articlesPerPage_def optional_param_def show_int_10)

lemma getNews_unscoped_served:
  "fst (api_getNews net None pg articlesPerPage None) = Inr d
     \<longleftrightarrow> served net (unscoped_page_request pg) = Some d"
  by (simp add: api_getNews_def json_or_throw_served unscoped_page_request_def
      API_BASE_URL_def articlesPerPage_def optional_param_def show_int_10)

lemma getNewsBySource_served:
  "fst (api_getNewsBySource net sourceId pg articlesPerPage) = Inr d
     \<longleftrightarrow> served net (source_page_request sourceId pg) = Some d"
  by (simp add: api_getNewsBySource_def json_or_throw_served source_page_request_def
      API_BASE_URL_def articlesPerPage_def show_int_10)

lemma getNews_search_served:
  "q \<noteq> [] \<Longrightarrow>
   fst (api_getNews net (Some q) pg articlesPerPage (if sel = lit ''all'' then None else Some sel)) = Inr d
     \<longleftrightarrow> served net (search_request q pg sel) = Some d"
  by (simp add: api_getNews_def json_or_throw_served search_request_def
      API_BASE_URL_def articlesPerPage_def optional_param_def show_int_10)

lemma analyzeArticle_served:
  "fst (api_analyzeArticle net (content a) (title a)) = Inr d
     \<longleftrightarrow> served net (analyze_request a) = Some d"
  by (simp add: api_analyzeArticle_def json_or_throw_served analyze_request_def API_BASE_URL_def)

lemma getSources_log: "snd (api_getSources net) = [sources_request]"
  by (simp add: api_getSources_def json_or_throw_log fetchWithTimeout_log sources_request_def
      API_BASE_URL_def)

lemma analyzeArticle_log:
  "snd (api_analyzeArticle net (content a) (title a)) = [analyze_request a]"
  by (simp add: api_analyzeArticle_def json_or_throw_log fetchWithTimeout_log analyze_request_def
      API_BASE_URL_def)

lemma fetchNewsBySource_log:
  "snd (fetchNewsBySource be sourceId pg st) =
     [if sourceId = lit ''all'' then unscoped_page_request pg else source_page_request sourceId pg]"
  by (simp add: fetchNewsBySource_def Let_def getNews_unscoped_log getNewsBySource_log)

lemma fetchNewsBySource_page:
  "currentPage st = pg \<Longrightarrow> currentPage (fst (fetchNewsBySource be sourceId pg st)) = pg"
  by (simp add: fetchNewsBySource_def Let_def split: sum.splits)

lemma fetchNewsBySource_selected:
  "selectedSource (fst (fetchNewsBySource be sourceId pg st)) = selectedSource st"
  by (simp add: fetchNewsBySource_def Let_def split: sum.splits)

subsection \<open>Whitespace\<close>

lemma dropWhile_all: "(\<forall>x\<in>set (dropWhile P s). P x) \<longleftrightarrow> (\<forall>x\<in>set s. P x)"
proof
  assume a: "\<forall>x\<in>set (dropWhile P s). P x"
  have "dropWhile P s = []"
  proof (rule ccontr)
    assume n: "dropWhile P s \<noteq> []"
    then have "\<not> P (hd (dropWhile P s))"
      by (rule hd_dropWhile)
    moreover from n have "hd (dropWhile P s) \<in> set (dropWhile P s)"
      by simp
    ultimately show False
      using a by blast
  qed
  then show "\<forall>x\<in>set s. P x"
    by (simp add: dropWhile_eq_Nil_conv)
next
  assume "\<forall>x\<in>set s. P x"
  then show "\<forall>x\<in>set (dropWhile P s). P x"
    by (meson set_dropWhileD)
qed

lemma trim_empty_iff: "trim s = [] \<longleftrightarrow> list_all is_white s"
  by (simp add: trim_def dropWhile_eq_Nil_conv list_all_iff dropWhile_all)

lemma is_white_iff: "is_white c \<longleftrightarrow> c \<in> white_space \<union> line_terminator"
  by (auto simp add: is_white_def white_space_def space_separator_def line_terminator_def)

lemma blank_iff: "blank q \<longleftrightarrow> list_all is_white q"
  by (auto simp add: blank_def list_all_iff is_white_iff)

lemma handleSearch_log:
  "snd (handleSearch be st) =
     [if list_all is_white (searchQuery st)
      then (if selectedSource st = lit ''all'' then unscoped_page_request 1
            else source_page_request (selectedSource st) 1)
      else search_request (searchQuery st) 1 (selectedSource st)]"
proof (cases "list_all is_white (searchQuery st)")
  case True
  then have "trim (searchQuery st) = []"
    by (simp add: trim_empty_iff)
  with True show ?thesis
    by (simp add: handleSearch_def fetchNewsBySource_log)
next
  case False
  then have t: "trim (searchQuery st) \<noteq> []"
    by (simp add: trim_empty_iff)
  from False have q: "searchQuery st \<noteq> []"
    by auto
  have l: "snd (api_getNews (news_net be) (Some (searchQuery st)) 1 articlesPerPage
                (if selectedSource st = lit ''all'' then None else Some (selectedSource st)))
             = [search_request (searchQuery st) 1 (selectedSource st)]"
    using q by (rule getNews_search_log)
  show ?thesis
    using False t l by (simp add: handleSearch_def Let_def)
qed

lemma handleSearch_page: "currentPage (fst (handleSearch be st)) = 1"
  by (simp add: handleSearch_def Let_def fetchNewsBySource_page split: sum.splits)

subsection \<open>The enrichment batch\<close>

lemma enrich_fulfils: "fst (enrich net a) = Inr (enriched net a)"
  by (simp add: enrich_def enriched_def Let_def split: sum.splits)

lemma enrich_log: "snd (enrich net a) = [analyze_request a]"
  by (simp add: enrich_def Let_def analyzeArticle_log)

lemma promises_values:
  "processed (allSettled (map fst (map (\<lambda>(i, article). enrich (f i) article) (enumerate k as))))
     = map (\<lambda>(i, article). enriched (f i) article) (enumerate k as)"
  by (induction as arbitrary: k)
    (simp_all add: enrich_fulfils processed_def allSettled_def map_filter_simps)

lemma promises_log:
  "concat (map snd (map (\<lambda>(i, article). enrich (f i) article) (enumerate k as)))
     = map analyze_request as"
  by (induction as arbitrary: k) (simp_all add: enrich_log)

lemma fetchNews_loaded:
  assumes "fst (api_getNews (news_net be) query pg articlesPerPage None) = Inr newsData"
      and "articles newsData \<noteq> []"
  shows "fetchNews be query pg st =
           (st\<lparr>newsArticles := map (\<lambda>(i, article). enriched (analyze_net be i) article)
                                   (enumerate 0 (articles newsData)),
               totalArticles := total newsData,
               totalPages := pages_for (total newsData),
               currentPage := pg,
               loading := False\<rparr>,
            snd (api_getNews (news_net be) query pg articlesPerPage None)
              @ map analyze_request (articles newsData))"
  using assms
  by (simp add: fetchNews_def Let_def promises_values promises_log del: map_map)

lemma fetchNews_loaded_empty:
  assumes "fst (api_getNews (news_net be) query pg articlesPerPage None) = Inr newsData"
      and "articles newsData = []"
  shows "fetchNews be query pg st =
           (st\<lparr>newsArticles := [],
               totalArticles := total newsData,
               totalPages := pages_for (total newsData),
               currentPage := pg,
               loading := False\<rparr>,
            snd (api_getNews (news_net be) query pg articlesPerPage None))"
  using assms
  by (simp add: fetchNews_def Let_def)

lemma spread_frame:
  "ai_summary (spread a s m c) = ai_summary a"
  "market_impact (spread a s m c) = market_impact a"
  "confidence_score (spread a s m c) = confidence_score a"
  by (simp_all add: spread_def NewsArticle.defs)

lemma spread_overlay:
  "aiSummary (spread a s m c) = s"
  "marketImpact (spread a s m c) = m"
  "confidence (spread a s m c) = c"
  by (simp_all add: spread_def NewsArticle.defs ViewArticle.defs)

lemma enriched_frame:
  "ai_summary (enriched net a) = ai_summary a"
  "market_impact (enriched net a) = market_impact a"
  "confidence_score (enriched net a) = confidence_score a"
  by (simp_all add: enriched_def spread_frame split: sum.splits)

lemma map_enumerate_frame:
  "(\<And>i a. g (h i a) = g' a) \<Longrightarrow> map g (map (\<lambda>(i, a). h i a) (enumerate k as)) = map g' as"
  by (induction as arbitrary: k) simp_all

lemma enriched_column:
  "map ai_summary (map (\<lambda>(i, a). enriched (f i) a) (enumerate 0 as)) = map ai_summary as"
  "map market_impact (map (\<lambda>(i, a). enriched (f i) a) (enumerate 0 as)) = map market_impact as"
  "map confidence_score (map (\<lambda>(i, a). enriched (f i) a) (enumerate 0 as)) = map confidence_score as"
  by (rule map_enumerate_frame, rule enriched_frame)+

lemma spread_truncate: "NewsArticle.truncate (spread a s m c) = a"
  by (simp add: spread_def NewsArticle.defs)

lemma enriched_truncate: "NewsArticle.truncate (enriched net a) = a"
  by (simp add: enriched_def spread_truncate split: sum.splits)

lemma enriched_overlay:
  "(case served net (analyze_request a) of
      None \<Rightarrow>
        aiSummary (enriched net a) = Null \<and> marketImpact (enriched net a) = Null
        \<and> confidence (enriched net a) = Null
    | Some analysis \<Rightarrow>
        aiSummary (enriched net a) = Val (key_insights analysis)
        \<and> marketImpact (enriched net a) = Val (an_market_impact analysis)
        \<and> confidence (enriched net a) = Val (agno_confidence analysis))"
proof (cases "served net (analyze_request a)")
  case None
  have "fst (api_analyzeArticle net (content a) (title a)) \<noteq> Inr d" for d
    using None by (simp add: analyzeArticle_served)
  then obtain e where "fst (api_analyzeArticle net (content a) (title a)) = Inl e"
    by (cases "fst (api_analyzeArticle net (content a) (title a))") auto
  with None show ?thesis
    by (simp add: enriched_def spread_overlay)
next
  case (Some analysis)
  then have "fst (api_analyzeArticle net (content a) (title a)) = Inr analysis"
    by (simp add: analyzeArticle_served)
  with Some show ?thesis
    by (simp add: enriched_def spread_overlay)
qed

lemma sample_page_loads:
  "fst (api_getNews (news_net sample_backend) None 1 articlesPerPage None) = Inr sample_page"
  by (simp add: api_getNews_def json_or_throw_def fetchWithTimeout_def Let_def sample_backend_def
      answering_def ok_def)

subsection \<open>Page numbers\<close>

lemma fetchNewsBySource_totalPages:
  assumes "snd (fetchNewsBySource be sourceId pg st) = [c]"
      and "served (news_net be) c = Some newsData"
  shows "totalPages (fst (fetchNewsBySource be sourceId pg st)) = pages_for (total newsData)"
proof (cases "sourceId = lit ''all''")
  case True
  with assms have "served (news_net be) (unscoped_page_request pg) = Some newsData"
    by (simp add: fetchNewsBySource_log)
  then have "fst (api_getNews (news_net be) None pg articlesPerPage None) = Inr newsData"
    by (simp add: getNews_unscoped_served)
  with True show ?thesis
    by (simp add: fetchNewsBySource_def Let_def)
next
  case False
  with assms have "served (news_net be) (source_page_request sourceId pg) = Some newsData"
    by (simp add: fetchNewsBySource_log)
  then have "fst (api_getNewsBySource (news_net be) sourceId pg articlesPerPage) = Inr newsData"
    by (simp add: getNewsBySource_served)
  with False show ?thesis
    by (simp add: fetchNewsBySource_def Let_def)
qed

lemma handleSearch_totalPages:
  assumes "snd (handleSearch be st) = [c]"
      and "served (news_net be) c = Some newsData"
  shows "totalPages (fst (handleSearch be st)) = pages_for (total newsData)"
proof (cases "list_all is_white (searchQuery st)")
  case True
  then have t: "trim (searchQuery st) = []"
    by (simp add: trim_empty_iff)
  then have h: "handleSearch be st =
      fetchNewsBySource be (selectedSource st) 1 (st\<lparr>currentPage := 1\<rparr>)"
    by (simp add: handleSearch_def)
  show ?thesis
    using assms unfolding h by (rule fetchNewsBySource_totalPages)
next
  case False
  then have t: "trim (searchQuery st) \<noteq> []"
    by (simp add: trim_empty_iff)
  from False have q: "searchQuery st \<noteq> []"
    by auto
  from assms False
  have "served (news_net be) (search_request (searchQuery st) 1 (selectedSource st)) = Some newsData"
    by (simp add: handleSearch_log)
  then have "fst (api_getNews (news_net be) (Some (searchQuery st)) 1 articlesPerPage
                (if selectedSource st = lit ''all'' then None else Some (selectedSource st)))
             = Inr newsData"
    using q by (simp add: getNews_search_served)
  with t show ?thesis
    by (simp add: handleSearch_def Let_def)
qed

lemma fetchNews_totalPages:
  assumes "fst (api_getNews (news_net be) query pg articlesPerPage None) = Inr newsData"
  shows "totalPages (fst (fetchNews be query pg st)) = pages_for (total newsData)"
proof (cases "articles newsData = []")
  case True
  show ?thesis
    by (simp add: fetchNews_loaded_empty [OF assms True])
next
  case False
  show ?thesis
    by (simp add: fetchNews_loaded [OF assms False])
qed

lemma pages_for_ceiling: "pages_for n = \<lceil>real_of_int n / 10\<rceil>"
  by (simp add: pages_for_def articlesPerPage_def)

lemma upto_from_one: "map (\<lambda>i. int i + 1) [0 ..< n] = [1 .. int n]"
proof (induction n)
  case 0
  show ?case by simp
next
  case (Suc n)
  then show ?case by (simp add: upto_rec2 add.commute)
qed

lemma pages_for_div: "pages_for n = (n + 9) div 10"
  unfolding pages_for_def articlesPerPage_def
proof -
  have "\<lceil>real_of_int n / real_of_int 10\<rceil> = - (- n div 10)"
    by (rule ceiling_divide_eq_div)
  moreover have "- (- n div 10) = (n + 9) div 10"
    by presburger
  ultimately show "\<lceil>real_of_int n / real_of_int 10\<rceil> = (n + 9) div 10"
    by simp
qed

lemma five_buttons: "[0 ..< 5] = [0, 1, 2, 3, 4]"
  by (simp add: upt_rec)

lemma no_buttons: "tp \<le> 1 \<Longrightarrow> pageButtons tp cp = []"
  by (simp add: pageButtons_def)

lemma few_buttons:
  assumes "1 < tp" and "tp \<le> 5"
  shows "pageButtons tp cp = [1 .. tp]"
proof -
  from assms have "pageButtons tp cp = map (\<lambda>i. int i + 1) [0 ..< nat tp]"
    by (simp add: pageButtons_def pageNum_def min_def)
  also have "\<dots> = [1 .. int (nat tp)]"
    by (rule upto_from_one)
  also from assms have "\<dots> = [1 .. tp]"
    by simp
  finally show ?thesis .
qed

lemma many_buttons:
  "5 < tp \<Longrightarrow> pageButtons tp cp = map (\<lambda>i. pageNum tp cp (int i)) [0, 1, 2, 3, 4]"
  by (simp add: pageButtons_def five_buttons)

lemma centred_iff:
  assumes "5 < tp"
  shows "pageButtons tp cp = centred_on cp \<longleftrightarrow> 3 \<le> cp \<and> cp \<le> tp - 2"
  using assms by (auto simp add: many_buttons pageNum_def centred_on_def)

section \<open>The claims about the dashboard\<close>

text \<open>
  C1. When \<^verbatim>\<open>fetchNews\<close> has loaded a page of N articles, N > 0, it makes, after the
  request for the page, exactly N analysis requests, one per article and in the order of
  the page. The batch does not fail whatever the analysis requests settle to: the error
  state is left as it was and loading ends. The view then holds N articles. The article at
  each position has the properties of the fetched article at that position; its
  \<^verbatim>\<open>aiSummary\<close>, \<^verbatim>\<open>marketImpact\<close> and \<^verbatim>\<open>confidence\<close> are null when its analysis request brought
  nothing back, and are the insights, market impact and confidence of the analysis it
  brought back otherwise.
\<close>

theorem fetchNews_enrichment:
  assumes "fst (api_getNews (news_net be) query pg articlesPerPage None) = Inr newsData"
      and "articles newsData \<noteq> []"
  shows "snd (fetchNews be query pg st) =
           snd (api_getNews (news_net be) query pg articlesPerPage None)
             @ map analyze_request (articles newsData)
         \<and> length (snd (fetchNews be query pg st)) = 1 + length (articles newsData)
         \<and> error (fst (fetchNews be query pg st)) = error st
         \<and> loading (fst (fetchNews be query pg st)) = False
         \<and> length (newsArticles (fst (fetchNews be query pg st))) = length (articles newsData)
         \<and> (\<forall>i < length (articles newsData).
               NewsArticle.truncate (newsArticles (fst (fetchNews be query pg st)) ! i)
                 = articles newsData ! i
               \<and> (case served (analyze_net be i) (analyze_request (articles newsData ! i)) of
                    None \<Rightarrow>
                      aiSummary (newsArticles (fst (fetchNews be query pg st)) ! i) = Null
                      \<and> marketImpact (newsArticles (fst (fetchNews be query pg st)) ! i) = Null
                      \<and> confidence (newsArticles (fst (fetchNews be query pg st)) ! i) = Null
                  | Some analysis \<Rightarrow>
                      aiSummary (newsArticles (fst (fetchNews be query pg st)) ! i)
                        = Val (key_insights analysis)
                      \<and> marketImpact (newsArticles (fst (fetchNews be query pg st)) ! i)
                        = Val (an_market_impact analysis)
                      \<and> confidence (newsArticles (fst (fetchNews be query pg st)) ! i)
                        = Val (agno_confidence analysis)))"
proof -
  note r = fetchNews_loaded [OF assms, of st]
  have l: "length (snd (api_getNews (news_net be) query pg articlesPerPage None)) = 1"
    by (simp add: api_getNews_def json_or_throw_log fetchWithTimeout_log)
  have a: "snd (fetchNews be query pg st) =
           snd (api_getNews (news_net be) query pg articlesPerPage None)
             @ map analyze_request (articles newsData)"
    by (simp add: r)
  have b: "length (snd (fetchNews be query pg st)) = 1 + length (articles newsData)"
    by (simp add: a l)
  have c: "error (fst (fetchNews be query pg st)) = error st"
    by (simp add: r)
  have d: "loading (fst (fetchNews be query pg st)) = False"
    by (simp add: r)
  have e: "length (newsArticles (fst (fetchNews be query pg st))) = length (articles newsData)"
    by (simp add: r)
  have f: "\<forall>i < length (articles newsData).
               NewsArticle.truncate (newsArticles (fst (fetchNews be query pg st)) ! i)
                 = articles newsData ! i
               \<and> (case served (analyze_net be i) (analyze_request (articles newsData ! i)) of
                    None \<Rightarrow>
                      aiSummary (newsArticles (fst (fetchNews be query pg st)) ! i) = Null
                      \<and> marketImpact (newsArticles (fst (fetchNews be query pg st)) ! i) = Null
                      \<and> confidence (newsArticles (fst (fetchNews be query pg st)) ! i) = Null
                  | Some analysis \<Rightarrow>
                      aiSummary (newsArticles (fst (fetchNews be query pg st)) ! i)
                        = Val (key_insights analysis)
                      \<and> marketImpact (newsArticles (fst (fetchNews be query pg st)) ! i)
                        = Val (an_market_impact analysis)
                      \<and> confidence (newsArticles (fst (fetchNews be query pg st)) ! i)
                        = Val (agno_confidence analysis))"
  proof (intro allI impI)
    fix i
    assume "i < length (articles newsData)"
    then have v: "newsArticles (fst (fetchNews be query pg st)) ! i
                    = enriched (analyze_net be i) (articles newsData ! i)"
      by (simp add: r nth_enumerate_eq)
    show "NewsArticle.truncate (newsArticles (fst (fetchNews be query pg st)) ! i)
                 = articles newsData ! i
               \<and> (case served (analyze_net be i) (analyze_request (articles newsData ! i)) of
                    None \<Rightarrow>
                      aiSummary (newsArticles (fst (fetchNews be query pg st)) ! i) = Null
                      \<and> marketImpact (newsArticles (fst (fetchNews be query pg st)) ! i) = Null
                      \<and> confidence (newsArticles (fst (fetchNews be query pg st)) ! i) = Null
                  | Some analysis \<Rightarrow>
                      aiSummary (newsArticles (fst (fetchNews be query pg st)) ! i)
                        = Val (key_insights analysis)
                      \<and> marketImpact (newsArticles (fst (fetchNews be query pg st)) ! i)
                        = Val (an_market_impact analysis)
                      \<and> confidence (newsArticles (fst (fetchNews be query pg st)) ! i)
                        = Val (agno_confidence analysis))"
      unfolding v by (intro conjI enriched_truncate enriched_overlay)
  qed
  from a b c d e f show ?thesis
    by (intro conjI)
qed

text \<open>
  On the sample backend the page has two articles; the analysis of the first is answered
  with status 500 and the second succeeds.
\<close>

theorem fetchNews_enrichment_witness:
  "fst (api_getNews (news_net sample_backend) None 1 articlesPerPage None) = Inr sample_page
   \<and> articles sample_page \<noteq> []
   \<and> snd (fetchNews sample_backend None 1 initial_state) =
       [unscoped_page_request 1, analyze_request (sample_article 1 (lit ''Cotton'')),
        analyze_request (sample_article 2 (lit ''Exports''))]
   \<and> error (fst (fetchNews sample_backend None 1 initial_state)) = None
   \<and> title (newsArticles (fst (fetchNews sample_backend None 1 initial_state)) ! 0) = lit ''Cotton''
   \<and> aiSummary (newsArticles (fst (fetchNews sample_backend None 1 initial_state)) ! 0) = Null
   \<and> marketImpact (newsArticles (fst (fetchNews sample_backend None 1 initial_state)) ! 0) = Null
   \<and> confidence (newsArticles (fst (fetchNews sample_backend None 1 initial_state)) ! 0) = Null
   \<and> title (newsArticles (fst (fetchNews sample_backend None 1 initial_state)) ! 1) = lit ''Exports''
   \<and> aiSummary (newsArticles (fst (fetchNews sample_backend None 1 initial_state)) ! 1)
       = Val (lit ''Orders are up'')
   \<and> marketImpact (newsArticles (fst (fetchNews sample_backend None 1 initial_state)) ! 1)
       = Val (lit ''positive'')
   \<and> confidence (newsArticles (fst (fetchNews sample_backend None 1 initial_state)) ! 1)
       = Val (9 / 10)"
proof -
  let ?v = "newsArticles (fst (fetchNews sample_backend None 1 initial_state))"
  have h2: "articles sample_page \<noteq> []"
    by (simp add: sample_page_def)
  note t = fetchNews_enrichment [OF sample_page_loads h2, of initial_state]
  note each = t [THEN conjunct2, THEN conjunct2, THEN conjunct2, THEN conjunct2, THEN conjunct2,
      rule_format]
  have s0: "served (analyze_net sample_backend 0) c = None" for c
    by (simp add: served_def sample_backend_def answering_def)
  have s1: "served (analyze_net sample_backend (Suc 0)) c = Some sample_analysis" for c
    by (simp add: served_def sample_backend_def answering_def)
  have t0: "NewsArticle.truncate (?v ! 0) = sample_article 1 (lit ''Cotton'')"
    using each [of 0] by (simp add: sample_page_def)
  have t1: "NewsArticle.truncate (?v ! 1) = sample_article 2 (lit ''Exports'')"
    using each [of 1] by (simp add: sample_page_def)
  have n0: "title (?v ! 0) = lit ''Cotton''"
    using arg_cong [OF t0, of title] by (simp add: NewsArticle.defs sample_article_def)
  have n1: "title (?v ! 1) = lit ''Exports''"
    using arg_cong [OF t1, of title] by (simp add: NewsArticle.defs sample_article_def)
  have o0: "aiSummary (?v ! 0) = Null \<and> marketImpact (?v ! 0) = Null \<and> confidence (?v ! 0) = Null"
    using each [of 0] by (simp add: sample_page_def s0)
  have o1: "aiSummary (?v ! 1) = Val (lit ''Orders are up'')
      \<and> marketImpact (?v ! 1) = Val (lit ''positive'') \<and> confidence (?v ! 1) = Val (9 / 10)"
    using each [of 1] by (simp add: sample_page_def s1 sample_analysis_def)
  have lg: "snd (fetchNews sample_backend None 1 initial_state) =
       [unscoped_page_request 1, analyze_request (sample_article 1 (lit ''Cotton'')),
        analyze_request (sample_article 2 (lit ''Exports''))]"
    using t [THEN conjunct1] by (simp add: getNews_unscoped_log sample_page_def)
  have er: "error (fst (fetchNews sample_backend None 1 initial_state)) = None"
    using t [THEN conjunct2, THEN conjunct2, THEN conjunct1] by (simp add: initial_state_def)
  from sample_page_loads h2 lg er n0 o0 n1 o1 show ?thesis
    by simp
qed

text \<open>
  C2, as amended. \<^verbatim>\<open>totalPages\<close> is the ceiling of the reported total over the page size 10,
  so a total of 47 gives 5 pages: \<^verbatim>\<open>fetchNews\<close>, \<^verbatim>\<open>fetchNewsBySource\<close>, \<^verbatim>\<open>handleSourceChange\<close> and
  \<^verbatim>\<open>handleSearch\<close> each store that number when their request brings a page back (for totals
  that are safe integers, where dividing doubles and dividing exactly agree). The page
  buttons are rendered only when there is more than one page. With 2 to 5 pages they show
  pages 1 to \<^verbatim>\<open>totalPages\<close>. With more than 5 pages they show the first five pages when
  \<^verbatim>\<open>currentPage <= 3\<close>, the last five when \<^verbatim>\<open>currentPage >= totalPages - 2\<close>, and the five pages
  centred on the current page in the remaining case, \<^verbatim>\<open>currentPage > 3\<close> and
  \<^verbatim>\<open>currentPage < totalPages - 2\<close>; the pages shown are the five centred on the current page
  exactly when \<^verbatim>\<open>3 <= currentPage <= totalPages - 2\<close>.
\<close>

theorem page_buttons:
  "pages_for 47 = 5
   \<and> (fst (api_getNews (news_net be) query pg articlesPerPage None) = Inr newsData
        \<and> safe_integer (total newsData)
        \<longrightarrow> totalPages (fst (fetchNews be query pg st)) = \<lceil>real_of_int (total newsData) / 10\<rceil>)
   \<and> (snd (fetchNewsBySource be sourceId pg st) = [c] \<and> served (news_net be) c = Some newsData
        \<and> safe_integer (total newsData)
        \<longrightarrow> totalPages (fst (fetchNewsBySource be sourceId pg st))
              = \<lceil>real_of_int (total newsData) / 10\<rceil>)
   \<and> (snd (handleSourceChange be sourceId st) = [c] \<and> served (news_net be) c = Some newsData
        \<and> safe_integer (total newsData)
        \<longrightarrow> totalPages (fst (handleSourceChange be sourceId st))
              = \<lceil>real_of_int (total newsData) / 10\<rceil>)
   \<and> (snd (handleSearch be st) = [c] \<and> served (news_net be) c = Some newsData
        \<and> safe_integer (total newsData)
        \<longrightarrow> totalPages (fst (handleSearch be st)) = \<lceil>real_of_int (total newsData) / 10\<rceil>)
   \<and> (tp \<le> 1 \<longrightarrow> pageButtons tp cp = [])
   \<and> (1 < tp \<and> tp \<le> 5 \<longrightarrow> pageButtons tp cp = [1 .. tp])
   \<and> (5 < tp \<and> cp \<le> 3 \<longrightarrow> pageButtons tp cp = [1, 2, 3, 4, 5])
   \<and> (5 < tp \<and> tp - 2 \<le> cp \<longrightarrow> pageButtons tp cp = [tp - 4, tp - 3, tp - 2, tp - 1, tp])
   \<and> (5 < tp \<and> 3 < cp \<and> cp < tp - 2 \<longrightarrow> pageButtons tp cp = centred_on cp)
   \<and> (5 < tp \<longrightarrow> (pageButtons tp cp = centred_on cp \<longleftrightarrow> 3 \<le> cp \<and> cp \<le> tp - 2))"
proof -
  have a: "pages_for 47 = 5"
    by (simp add: pages_for_div)
  have l1: "fst (api_getNews (news_net be) query pg articlesPerPage None) = Inr newsData
        \<and> safe_integer (total newsData)
        \<longrightarrow> totalPages (fst (fetchNews be query pg st)) = \<lceil>real_of_int (total newsData) / 10\<rceil>"
    by (simp add: fetchNews_totalPages pages_for_ceiling)
  have l2: "snd (fetchNewsBySource be sourceId pg st) = [c] \<and> served (news_net be) c = Some newsData
        \<and> safe_integer (total newsData)
        \<longrightarrow> totalPages (fst (fetchNewsBySource be sourceId pg st))
              = \<lceil>real_of_int (total newsData) / 10\<rceil>"
    using fetchNewsBySource_totalPages [of be sourceId pg st c newsData]
    by (simp add: pages_for_ceiling)
  have l3: "snd (handleSourceChange be sourceId st) = [c] \<and> served (news_net be) c = Some newsData
        \<and> safe_integer (total newsData)
        \<longrightarrow> totalPages (fst (handleSourceChange be sourceId st))
              = \<lceil>real_of_int (total newsData) / 10\<rceil>"
    unfolding handleSourceChange_def
    using fetchNewsBySource_totalPages
      [of be sourceId 1 "st\<lparr>selectedSource := sourceId, currentPage := 1\<rparr>" c newsData]
    by (simp add: pages_for_ceiling)
  have l4: "snd (handleSearch be st) = [c] \<and> served (news_net be) c = Some newsData
        \<and> safe_integer (total newsData)
        \<longrightarrow> totalPages (fst (handleSearch be st)) = \<lceil>real_of_int (total newsData) / 10\<rceil>"
    using handleSearch_totalPages [of be st c newsData]
    by (simp add: pages_for_ceiling)
  have b0: "tp \<le> 1 \<longrightarrow> pageButtons tp cp = []"
    by (simp add: no_buttons)
  have b1: "1 < tp \<and> tp \<le> 5 \<longrightarrow> pageButtons tp cp = [1 .. tp]"
    by (simp add: few_buttons)
  have b2: "5 < tp \<and> cp \<le> 3 \<longrightarrow> pageButtons tp cp = [1, 2, 3, 4, 5]"
    by (simp add: many_buttons pageNum_def)
  have b3: "5 < tp \<and> tp - 2 \<le> cp \<longrightarrow> pageButtons tp cp = [tp - 4, tp - 3, tp - 2, tp - 1, tp]"
    by (simp add: many_buttons pageNum_def)
  have b4: "5 < tp \<and> 3 < cp \<and> cp < tp - 2 \<longrightarrow> pageButtons tp cp = centred_on cp"
    by (simp add: many_buttons pageNum_def centred_on_def)
  have b5: "5 < tp \<longrightarrow> (pageButtons tp cp = centred_on cp \<longleftrightarrow> 3 \<le> cp \<and> cp \<le> tp - 2)"
    by (simp add: centred_iff)
  from a l1 l2 l3 l4 b0 b1 b2 b3 b4 b5 show ?thesis
    by (intro conjI)
qed

text \<open>
  One page, three pages; nine pages at page 2, at page 8, at page 5 and at page 3; and the
  47 articles of the sample backend, loaded by choosing a source and by a search.
\<close>

theorem page_buttons_witness:
  "pageButtons 1 1 = []
   \<and> pageButtons 3 1 = [1, 2, 3]
   \<and> pageButtons 9 2 = [1, 2, 3, 4, 5]
   \<and> pageButtons 9 8 = [5, 6, 7, 8, 9]
   \<and> pageButtons 9 5 = [3, 4, 5, 6, 7]
   \<and> pageButtons 9 3 = centred_on 3
   \<and> totalPages (fst (fetchNews sample_backend None 1 initial_state)) = 5
   \<and> totalPages (fst (handleSourceChange sample_backend (lit ''tbs'') initial_state)) = 5
   \<and> totalPages (fst (handleSearch sample_backend (initial_state\<lparr>searchQuery := lit ''cotton''\<rparr>))) = 5"
proof -
  let ?q = "initial_state\<lparr>searchQuery := lit ''cotton''\<rparr>"
  note w = page_buttons [where be = sample_backend and query = None and pg = 1
      and newsData = sample_page and st = initial_state and sourceId = "lit ''tbs''"
      and c = "source_page_request (lit ''tbs'') 1"]
  have p: "pageButtons 1 1 = [] \<and> pageButtons 3 1 = [1, 2, 3] \<and> pageButtons 9 2 = [1, 2, 3, 4, 5]
     \<and> pageButtons 9 8 = [5, 6, 7, 8, 9] \<and> pageButtons 9 5 = [3, 4, 5, 6, 7]
     \<and> pageButtons 9 3 = centred_on 3"
    using w [of 1 1] w [of 3 1] w [of 9 2] w [of 9 8] w [of 9 5] w [of 9 3]
    by (simp add: upto_rec1 centred_on_def)
  have sv: "served (news_net sample_backend) c = Some sample_page" for c
    by (simp add: served_def sample_backend_def answering_def)
  have sf: "safe_integer (total sample_page)"
    by (simp add: safe_integer_def sample_page_def)
  have t1: "totalPages (fst (fetchNews sample_backend None 1 initial_state)) = 5"
    using w [of 1 1] sf by (simp add: sample_page_loads sample_page_def)
  have t2: "totalPages (fst (handleSourceChange sample_backend (lit ''tbs'') initial_state)) = 5"
    using w [of 1 1] sf sv
    by (simp add: handleSourceChange_def fetchNewsBySource_log sample_page_def)
  have nb: "\<not> list_all is_white (lit ''cotton'')"
    by (simp add: is_white_def lit_def)
  have t3: "totalPages (fst (handleSearch sample_backend ?q)) = 5"
    using page_buttons [where be = sample_backend and query = None and pg = 1
      and newsData = sample_page and st = ?q and sourceId = "lit ''tbs''"
      and c = "search_request (lit ''cotton'') 1 (lit ''all'')" and tp = 1 and cp = 1] sf sv nb
    by (simp add: handleSearch_log initial_state_def sample_page_def)
  from p t1 t2 t3 show ?thesis
    by simp
qed

text \<open>
  C2 as stated fails in two places. With one page, which is at most 5, the claim has page 1
  shown, and no page button is rendered. With nine pages at page 3 the pages shown are the
  five centred on page 3, although \<^verbatim>\<open>currentPage > 3\<close> does not hold.
\<close>

theorem page_buttons_counterexample:
  "pageButtons 1 1 \<noteq> [1 .. 1]
   \<and> \<not> (pageButtons 9 3 = centred_on 3 \<longleftrightarrow> (3 :: int) < 3 \<and> (3 :: int) < 9 - 2)"
  by (simp add: pageButtons_def pageNum_def five_buttons centred_on_def upto_rec1)

text \<open>
  C4. When the initial \<^verbatim>\<open>healthCheck()\<close> resolves to false, \<^verbatim>\<open>fetchInitialData\<close> sets the
  backend-unavailable message, ends loading and changes nothing else, and the health
  request is the only request it makes: no \<^verbatim>\<open>getSources\<close>, no article fetch.
\<close>

theorem unhealthy_backend_stops_load:
  assumes "fst (api_healthCheck (health_net be)) = Inr False"
  shows "fetchInitialData be st =
           (st\<lparr>loading := False,
               error := Some (lit ''Backend server is not responding. Please ensure the backend is running on http://localhost:8000'')\<rparr>,
            [health_request])"
  using assms by (simp add: fetchInitialData_def Let_def healthCheck_log)

theorem unhealthy_backend_stops_load_witness:
  "fst (api_healthCheck (health_net down_backend)) = Inr False
   \<and> fetchInitialData down_backend initial_state =
       (initial_state\<lparr>loading := False,
          error := Some (lit ''Backend server is not responding. Please ensure the backend is running on http://localhost:8000'')\<rparr>,
        [health_request])"
proof -
  have h: "fst (api_healthCheck (health_net down_backend)) = Inr False"
    by (simp add: api_healthCheck_def fetchWithTimeout_def Let_def down_backend_def
        sample_backend_def answering_def ok_def)
  from h unhealthy_backend_stops_load [OF h, of initial_state] show ?thesis
    by (intro conjI)
qed

text \<open>
  C5. When the backend is healthy and \<^verbatim>\<open>getSources()\<close> rejects, \<^verbatim>\<open>fetchInitialData\<close> makes the
  health request and the sources request, sets the source map to the empty map, ends
  loading, and leaves the error state cleared (null).
\<close>

theorem sources_failure_tolerated:
  assumes "fst (api_healthCheck (health_net be)) = Inr True"
      and "fst (api_getSources (sources_net be)) = Inl e"
  shows "fetchInitialData be st =
           (st\<lparr>sources := Map.empty, loading := False, error := None\<rparr>,
            [health_request, sources_request])"
  using assms by (simp add: fetchInitialData_def Let_def healthCheck_log getSources_log)

theorem sources_failure_tolerated_witness:
  "fst (api_healthCheck (health_net sample_backend)) = Inr True
   \<and> fst (api_getSources (sources_net sample_backend)) = Inl network_error
   \<and> fetchInitialData sample_backend initial_state =
       (initial_state\<lparr>sources := Map.empty, loading := False, error := None\<rparr>,
        [health_request, sources_request])"
proof -
  have h: "fst (api_healthCheck (health_net sample_backend)) = Inr True"
    by (simp add: api_healthCheck_def fetchWithTimeout_def Let_def sample_backend_def
        answering_def ok_def)
  have g: "fst (api_getSources (sources_net sample_backend)) = Inl network_error"
    by (simp add: api_getSources_def json_or_throw_def fetchWithTimeout_def Let_def
        sample_backend_def rejecting_def network_error_def)
  from h g sources_failure_tolerated [OF h g, of initial_state] show ?thesis
    by (intro conjI)
qed

text \<open>
  C6. \<^verbatim>\<open>handleSearch\<close> leaves \<^verbatim>\<open>currentPage\<close> at 1 and makes exactly one request. When the
  query is blank (empty, or whitespace only), that request is page 1 of the selected source
  without any query: the unscoped news request when the selection is \<^verbatim>\<open>"all"\<close>, the request
  for that source's news otherwise. For any other query it is the \<^verbatim>\<open>getNews\<close> request with
  that query, page 1, and the selected source (no source when the selection is \<^verbatim>\<open>"all"\<close>).
\<close>

theorem handleSearch_requests:
  "currentPage (fst (handleSearch be st)) = 1
   \<and> snd (handleSearch be st) =
       [if blank (searchQuery st)
        then (if selectedSource st = lit ''all'' then unscoped_page_request 1
              else source_page_request (selectedSource st) 1)
        else search_request (searchQuery st) 1 (selectedSource st)]"
proof (intro conjI)
  show "currentPage (fst (handleSearch be st)) = 1"
    by (rule handleSearch_page)
  show "snd (handleSearch be st) =
       [if blank (searchQuery st)
        then (if selectedSource st = lit ''all'' then unscoped_page_request 1
              else source_page_request (selectedSource st) 1)
        else search_request (searchQuery st) 1 (selectedSource st)]"
    unfolding blank_iff by (rule handleSearch_log)
qed

text \<open>
  Two spaces under "all", a tab and a line feed, and an ideographic space with a byte order
  mark fetch the unfiltered page 1; so does the empty query under a source. A query with a
  source selected sends both; leading whitespace stays in the query sent; a query of one
  CJK character (U+7DBF) is sent as it is.
\<close>

theorem handleSearch_requests_witness:
  "snd (handleSearch sample_backend (initial_state\<lparr>searchQuery := lit ''  ''\<rparr>)) =
     [\<lparr>url = lit ''http://localhost:8000/api/news'',
       params = [(lit ''page'', lit ''1''), (lit ''per_page'', lit ''10'')],
       init = empty_init, timeout = 45000\<rparr>]
   \<and> snd (handleSearch sample_backend (initial_state\<lparr>searchQuery := [0x0009, 0x000A]\<rparr>)) =
     [\<lparr>url = lit ''http://localhost:8000/api/news'',
       params = [(lit ''page'', lit ''1''), (lit ''per_page'', lit ''10'')],
       init = empty_init, timeout = 45000\<rparr>]
   \<and> snd (handleSearch sample_backend (initial_state\<lparr>searchQuery := [0x3000, 0xFEFF]\<rparr>)) =
     [\<lparr>url = lit ''http://localhost:8000/api/news'',
       params = [(lit ''page'', lit ''1''), (lit ''per_page'', lit ''10'')],
       init = empty_init, timeout = 45000\<rparr>]
   \<and> snd (handleSearch sample_backend (initial_state\<lparr>searchQuery := [], selectedSource := lit ''tbs''\<rparr>)) =
     [\<lparr>url = lit ''http://localhost:8000/api/news/sources/tbs'',
       params = [(lit ''page'', lit ''1''), (lit ''per_page'', lit ''10'')],
       init = empty_init, timeout = 45000\<rparr>]
   \<and> snd (handleSearch sample_backend
            (initial_state\<lparr>searchQuery := lit ''cotton'', selectedSource := lit ''tbs''\<rparr>)) =
     [\<lparr>url = lit ''http://localhost:8000/api/news'',
       params = [(lit ''page'', lit ''1''), (lit ''per_page'', lit ''10''),
                 (lit ''query'', lit ''cotton''), (lit ''source'', lit ''tbs'')],
       init = empty_init, timeout = 45000\<rparr>]
   \<and> snd (handleSearch sample_backend (initial_state\<lparr>searchQuery := lit '' cotton''\<rparr>)) =
     [\<lparr>url = lit ''http://localhost:8000/api/news'',
       params = [(lit ''page'', lit ''1''), (lit ''per_page'', lit ''10''),
                 (lit ''query'', lit '' cotton'')],
       init = empty_init, timeout = 45000\<rparr>]
   \<and> snd (handleSearch sample_backend (initial_state\<lparr>searchQuery := [0x7DBF]\<rparr>)) =
     [\<lparr>url = lit ''http://localhost:8000/api/news'',
       params = [(lit ''page'', lit ''1''), (lit ''per_page'', lit ''10''),
                 (lit ''query'', [0x7DBF])],
       init = empty_init, timeout = 45000\<rparr>]"
proof -
  have w1: "blank (lit ''  '')" and w2: "blank [0x0009, 0x000A]" and w3: "blank [0x3000, 0xFEFF]"
    and w4: "blank []"
    by (simp_all add: blank_def white_space_def space_separator_def line_terminator_def lit_def)
  have n1: "\<not> blank (lit ''cotton'')" and n2: "\<not> blank (lit '' cotton'')" and n3: "\<not> blank [0x7DBF]"
    by (simp_all add: blank_def white_space_def space_separator_def line_terminator_def lit_def)
  have a: "lit ''tbs'' \<noteq> lit ''all''"
    by simp
  note req = unscoped_page_request_def source_page_request_def search_request_def
    optional_param_def show_int_1 initial_state_def
  show ?thesis
    using handleSearch_requests [of sample_backend "initial_state\<lparr>searchQuery := lit ''  ''\<rparr>",
        THEN conjunct2]
      handleSearch_requests [of sample_backend "initial_state\<lparr>searchQuery := [0x0009, 0x000A]\<rparr>",
        THEN conjunct2]
      handleSearch_requests [of sample_backend "initial_state\<lparr>searchQuery := [0x3000, 0xFEFF]\<rparr>",
        THEN conjunct2]
      handleSearch_requests [of sample_backend
        "initial_state\<lparr>searchQuery := [], selectedSource := lit ''tbs''\<rparr>", THEN conjunct2]
      handleSearch_requests [of sample_backend
        "initial_state\<lparr>searchQuery := lit ''cotton'', selectedSource := lit ''tbs''\<rparr>",
        THEN conjunct2]
      handleSearch_requests [of sample_backend "initial_state\<lparr>searchQuery := lit '' cotton''\<rparr>",
        THEN conjunct2]
      handleSearch_requests [of sample_backend "initial_state\<lparr>searchQuery := [0x7DBF]\<rparr>",
        THEN conjunct2]
    by (simp add: w1 w2 w3 w4 n1 n2 n3 a req)
qed

text \<open>
  C7. \<^verbatim>\<open>handleSourceChange\<close> ends with the given source selected and \<^verbatim>\<open>currentPage\<close> at 1, and
  makes exactly one request, for page 1: the request for that source's news when the
  identifier is not \<^verbatim>\<open>"all"\<close>, the unscoped news request when it is.
\<close>

theorem handleSourceChange_page_one:
  "selectedSource (fst (handleSourceChange be sourceId st)) = sourceId
   \<and> currentPage (fst (handleSourceChange be sourceId st)) = 1
   \<and> snd (handleSourceChange be sourceId st) =
       [if sourceId = lit ''all'' then unscoped_page_request 1 else source_page_request sourceId 1]"
  by (simp add: handleSourceChange_def fetchNewsBySource_log fetchNewsBySource_page
      fetchNewsBySource_selected)

text \<open>
  Choosing a source from page 4 fetches its page 1; choosing "all" fetches the unscoped
  page 1.
\<close>

theorem handleSourceChange_page_one_witness:
  "snd (handleSourceChange sample_backend (lit ''tbs'') (initial_state\<lparr>currentPage := 4\<rparr>)) =
     [\<lparr>url = lit ''http://localhost:8000/api/news/sources/tbs'',
       params = [(lit ''page'', lit ''1''), (lit ''per_page'', lit ''10'')],
       init = empty_init, timeout = 45000\<rparr>]
   \<and> currentPage (fst (handleSourceChange sample_backend (lit ''tbs'') (initial_state\<lparr>currentPage := 4\<rparr>))) = 1
   \<and> snd (handleSourceChange sample_backend (lit ''all'') (initial_state\<lparr>selectedSource := lit ''tbs''\<rparr>)) =
     [\<lparr>url = lit ''http://localhost:8000/api/news'',
       params = [(lit ''page'', lit ''1''), (lit ''per_page'', lit ''10'')],
       init = empty_init, timeout = 45000\<rparr>]
   \<and> selectedSource (fst (handleSourceChange sample_backend (lit ''all'') (initial_state\<lparr>selectedSource := lit ''tbs''\<rparr>))) = lit ''all''"
  using handleSourceChange_page_one [of sample_backend "lit ''tbs''" "initial_state\<lparr>currentPage := 4\<rparr>"]
    handleSourceChange_page_one [of sample_backend "lit ''all''" "initial_state\<lparr>selectedSource := lit ''tbs''\<rparr>"]
  by (simp add: unscoped_page_request_def source_page_request_def show_int_1)

text \<open>
  C9. After \<^verbatim>\<open>fetchNews\<close> has loaded a page, with or without articles, the articles in the view
  carry the \<^verbatim>\<open>ai_summary\<close>, \<^verbatim>\<open>market_impact\<close> and \<^verbatim>\<open>confidence_score\<close> they were fetched with, in
  the order of the page: the enrichment writes \<^verbatim>\<open>aiSummary\<close>, \<^verbatim>\<open>marketImpact\<close> and \<^verbatim>\<open>confidence\<close>,
  which are other properties.
\<close>

theorem fetchNews_keeps_fetched_ai_fields:
  assumes "fst (api_getNews (news_net be) query pg articlesPerPage None) = Inr newsData"
  shows "map ai_summary (newsArticles (fst (fetchNews be query pg st))) = map ai_summary (articles newsData)
         \<and> map market_impact (newsArticles (fst (fetchNews be query pg st))) = map market_impact (articles newsData)
         \<and> map confidence_score (newsArticles (fst (fetchNews be query pg st))) = map confidence_score (articles newsData)"
proof (cases "articles newsData = []")
  case True
  show ?thesis
    by (simp add: fetchNews_loaded_empty [OF assms True] True)
next
  case False
  show ?thesis
    by (simp add: fetchNews_loaded [OF assms False] enriched_column del: map_map)
qed

text \<open>
  On the sample backend the stored fields of both articles stay as fetched, while
  \<^verbatim>\<open>aiSummary\<close> receives the outcome of the analysis.
\<close>

theorem fetchNews_keeps_fetched_ai_fields_witness:
  "fst (api_getNews (news_net sample_backend) None 1 articlesPerPage None) = Inr sample_page
   \<and> map ai_summary (newsArticles (fst (fetchNews sample_backend None 1 initial_state)))
       = [Val (lit ''Stored summary''), Val (lit ''Stored summary'')]
   \<and> map market_impact (newsArticles (fst (fetchNews sample_backend None 1 initial_state)))
       = [Null, Null]
   \<and> map confidence_score (newsArticles (fst (fetchNews sample_backend None 1 initial_state)))
       = [Undefined, Undefined]
   \<and> map aiSummary (newsArticles (fst (fetchNews sample_backend None 1 initial_state)))
       = [Null, Val (lit ''Orders are up'')]"
proof -
  note t = fetchNews_keeps_fetched_ai_fields [OF sample_page_loads, of initial_state]
  have h2: "articles sample_page \<noteq> []"
    by (simp add: sample_page_def)
  have a0: "fst (api_analyzeArticle (analyze_net sample_backend 0) c0 t0) = Inl (new_Error (lit ''Failed to analyze article: 500 Internal Server Error''))" for c0 t0
    by (simp add: api_analyzeArticle_def json_or_throw_def fetchWithTimeout_def Let_def
        sample_backend_def answering_def ok_def show_nat_500)
  have a1: "fst (api_analyzeArticle (analyze_net sample_backend (Suc 0)) c1 t1) = Inr sample_analysis" for c1 t1
    by (simp add: api_analyzeArticle_def json_or_throw_def fetchWithTimeout_def Let_def
        sample_backend_def answering_def ok_def)
  have o: "map aiSummary (newsArticles (fst (fetchNews sample_backend None 1 initial_state)))
       = [Null, Val (lit ''Orders are up'')]"
    by (simp add: fetchNews_loaded [OF sample_page_loads h2] sample_page_def enriched_def a0 a1
        spread_overlay sample_analysis_def)
  show ?thesis
    using t o by (simp add: sample_page_loads sample_page_def sample_article_def)
qed

text \<open>
  C10. For a page number below 1 or above \<^verbatim>\<open>totalPages\<close>, \<^verbatim>\<open>handlePageChange\<close> makes no request
  and returns the state it was given, every cell unchanged.
\<close>

theorem handlePageChange_out_of_range:
  assumes "pg < 1 \<or> totalPages st < pg"
  shows "handlePageChange be pg st = (st, [])"
proof -
  from assms have "\<not> (pg \<ge> 1 \<and> pg \<le> totalPages st)"
    by auto
  then show ?thesis
    by (simp only: handlePageChange_def if_False)
qed

text \<open>Page 0, and page 2 when there is one page.\<close>

theorem handlePageChange_out_of_range_witness:
  "handlePageChange sample_backend 0 initial_state = (initial_state, [])
   \<and> handlePageChange sample_backend 2 initial_state = (initial_state, [])"
proof -
  have "handlePageChange sample_backend 0 initial_state = (initial_state, [])"
    by (rule handlePageChange_out_of_range) simp
  moreover have "handlePageChange sample_backend 2 initial_state = (initial_state, [])"
    by (rule handlePageChange_out_of_range) (simp add: initial_state_def)
  ultimately show ?thesis
    by (intro conjI)
qed

end
